theory Spec2Isabelle
  imports Main "HOL-Library.Word"
begin

section \<open>Python values the client works with\<close>

text \<open>
  The module \<^verbatim>\<open>usp/web_client/requests_client.py\<close> wraps the \<^verbatim>\<open>requests\<close> library.
  A Python \<^verbatim>\<open>bytes\<close> value is a list of 8-bit words, a Python \<^verbatim>\<open>int\<close> is an \<open>int\<close>, and a
  Python \<^verbatim>\<open>str\<close> is a \<open>string\<close> whose characters are read as the code points 0..255
  (Latin-1, the range in which the HTTP layer under \<^verbatim>\<open>requests\<close> decodes a status line and
  header lines).
\<close>

type_synonym byte = "8 word"
type_synonym bytes = "byte list"

text \<open>
  \<^verbatim>\<open>str.lower()\<close> on the code points 0..255: the letters A..Z and the upper-case Latin-1
  letters 0xC0..0xDE (the multiplication sign 0xD7 excepted) move up by 32, every other
  code point stays.
\<close>

definition lower_char :: "char \<Rightarrow> char" where
  "lower_char c =
     (let n = (of_char c :: nat)
      in if (65 \<le> n \<and> n \<le> 90) \<or> (192 \<le> n \<and> n \<le> 222 \<and> n \<noteq> 215)
         then char_of (n + 32) else c)"

definition str_lower :: "string \<Rightarrow> string" where
  "str_lower s = map lower_char s"

text \<open>\<^verbatim>\<open>str(n)\<close> for an integer: decimal digits, with a minus sign below zero.\<close>

definition digit_char :: "nat \<Rightarrow> char" where
  "digit_char d = char_of (48 + d)"

fun str_nat :: "nat \<Rightarrow> string" where
  "str_nat n = (if n < 10 then [digit_char n] else str_nat (n div 10) @ [digit_char (n mod 10)])"

declare str_nat.simps [simp del]

definition str_int :: "int \<Rightarrow> string" where
  "str_int i = (if i < 0 then CHR ''-'' # str_nat (nat (- i)) else str_nat (nat i))"

text \<open>\<^verbatim>\<open>str(x)\<close> for an \<^verbatim>\<open>Optional[str]\<close>: the absent value prints as \<^verbatim>\<open>None\<close>.\<close>

fun str_optional :: "string option \<Rightarrow> string" where
  "str_optional None = ''None''"
| "str_optional (Some s) = s"

text \<open>
  A slice \<^verbatim>\<open>xs[:n]\<close>: a negative bound counts from the end, and a bound beyond either end
  is clamped.
\<close>

definition slice_to :: "'a list \<Rightarrow> int \<Rightarrow> 'a list" where
  "slice_to xs n = (if 0 \<le> n then take (nat n) xs else take (nat (int (length xs) + n)) xs)"

text \<open>
  \<^verbatim>\<open>random.choice(seq)\<close> on a non-empty sequence; the random draw is the explicit
  argument \<open>r\<close>, reduced to an index of the sequence.
\<close>

definition choice :: "nat \<Rightarrow> 'a list \<Rightarrow> 'a" where
  "choice r seq = seq ! (r mod length seq)"

section \<open>Exceptions\<close>

text \<open>
  The classes of \<^verbatim>\<open>requests.exceptions\<close>, all below \<^verbatim>\<open>RequestException\<close>; an exception
  outside that hierarchy is kept with its class name. Both carry the text \<^verbatim>\<open>str(ex)\<close>.
\<close>

datatype requests_exception_class =
    RequestException | HTTPError | ConnectionError | ProxyError | SSLError
  | Timeout | ConnectTimeout | ReadTimeout | URLRequired | TooManyRedirects
  | MissingSchema | InvalidSchema | InvalidURL | InvalidHeader | InvalidProxyURL
  | ChunkedEncodingError | ContentDecodingError | StreamConsumedError | RetryError
  | UnrewindableBodyError | InvalidJSONError | JSONDecodeError

datatype py_exception =
    RequestsError requests_exception_class string
  | OtherError string string

fun str_exception :: "py_exception \<Rightarrow> string" where
  "str_exception (RequestsError _ s) = s"
| "str_exception (OtherError _ s) = s"

text \<open>\<^verbatim>\<open>except requests.exceptions.Timeout\<close> matches \<^verbatim>\<open>Timeout\<close> and its two subclasses.\<close>

fun isinstance_Timeout :: "py_exception \<Rightarrow> bool" where
  "isinstance_Timeout (RequestsError Timeout _) = True"
| "isinstance_Timeout (RequestsError ConnectTimeout _) = True"
| "isinstance_Timeout (RequestsError ReadTimeout _) = True"
| "isinstance_Timeout _ = False"

fun isinstance_RequestException :: "py_exception \<Rightarrow> bool" where
  "isinstance_RequestException (RequestsError _ _) = True"
| "isinstance_RequestException (OtherError _ _) = False"

definition ValueError :: "string \<Rightarrow> py_exception" where
  "ValueError s = OtherError ''ValueError'' s"

section \<open>The transport: \<^verbatim>\<open>requests.Response\<close> and \<^verbatim>\<open>requests.get\<close>\<close>

text \<open>
  \<^verbatim>\<open>requests.structures.CaseInsensitiveDict\<close>: the store is keyed by the lower-cased name
  and keeps the name as it was set together with the value.
\<close>

type_synonym case_insensitive_dict = "string \<rightharpoonup> string \<times> string"

definition cid_setitem :: "case_insensitive_dict \<Rightarrow> string \<Rightarrow> string \<Rightarrow> case_insensitive_dict" where
  "cid_setitem store key v = store(str_lower key \<mapsto> (key, v))"

definition cid_get :: "case_insensitive_dict \<Rightarrow> string \<Rightarrow> string option" where
  "cid_get store key = (case store (str_lower key) of None \<Rightarrow> None | Some (_, v) \<Rightarrow> Some v)"

definition CaseInsensitiveDict :: "(string \<times> string) list \<Rightarrow> case_insensitive_dict" where
  "CaseInsensitiveDict fields = fold (\<lambda>(key, v) store. cid_setitem store key v) fields Map.empty"

text \<open>\<^verbatim>\<open>sep.join(xs)\<close> on strings.\<close>

fun str_join :: "string \<Rightarrow> string list \<Rightarrow> string" where
  "str_join sep [] = []"
| "str_join sep [x] = x"
| "str_join sep (x # y # ys) = x @ sep @ str_join sep (y # ys)"

text \<open>
  \<^verbatim>\<open>urllib3.HTTPHeaderDict\<close>, in which the header fields of a response are collected. Its
  container is an ordered dictionary from the lower-cased name to the name as first seen
  and the values of all fields of that name, in the order received. \<^verbatim>\<open>add\<close> appends the
  value when the lower-cased name is present and makes a new entry at the end otherwise;
  iterating the merged items gives, for each entry, the first name with the values joined
  by a comma and a space.
\<close>

type_synonym http_header_dict = "(string \<times> string \<times> string list) list"

fun hhd_add :: "http_header_dict \<Rightarrow> string \<Rightarrow> string \<Rightarrow> http_header_dict" where
  "hhd_add [] key val = [(str_lower key, key, [val])]"
| "hhd_add ((key_lower, vals) # container) key val =
     (if key_lower = str_lower key then (key_lower, fst vals, snd vals @ [val]) # container
      else (key_lower, vals) # hhd_add container key val)"

definition HTTPHeaderDict :: "(string \<times> string) list \<Rightarrow> http_header_dict" where
  "HTTPHeaderDict headers = fold (\<lambda>(key, val) container. hhd_add container key val) headers []"

definition itermerged :: "http_header_dict \<Rightarrow> (string \<times> string) list" where
  "itermerged container = map (\<lambda>(key_lower, key, vals). (key, str_join '', '' vals)) container"

text \<open>
  What the client reads of a \<^verbatim>\<open>requests.Response\<close>: the status code, the reason phrase
  (absent or a string, possibly empty), the headers and the body \<^verbatim>\<open>response.content\<close>.
  The response is given with its header fields in the order received; the library
  collects them in an \<^verbatim>\<open>HTTPHeaderDict\<close> and sets \<^verbatim>\<open>response.headers\<close> to the
  \<^verbatim>\<open>CaseInsensitiveDict\<close> of its merged items, so that the values of repeated fields
  arrive joined.
\<close>

record requests_response =
  resp_status_code :: int
  resp_reason :: "string option"
  resp_header_fields :: "(string \<times> string) list"
  resp_content :: bytes

definition resp_headers :: "requests_response \<Rightarrow> case_insensitive_dict" where
  "resp_headers response =
     CaseInsensitiveDict (itermerged (HTTPHeaderDict (resp_header_fields response)))"

text \<open>The arguments of one call \<^verbatim>\<open>requests.get(url, timeout=, stream=, headers=, proxies=)\<close>.\<close>

record requests_call =
  call_url :: string
  call_timeout :: int
  call_stream :: bool
  call_headers :: "(string \<times> string) list"
  call_proxies :: "string \<rightharpoonup> string"

text \<open>\<^verbatim>\<open>dict.setdefault(k, v)\<close>: the entry is set only when the key is absent.\<close>

definition setdefault :: "('k \<rightharpoonup> 'v) \<Rightarrow> 'k \<Rightarrow> 'v \<Rightarrow> ('k \<rightharpoonup> 'v)" where
  "setdefault d k v = (case d k of None \<Rightarrow> d(k \<mapsto> v) | Some _ \<Rightarrow> d)"

text \<open>
  The transport either raises or returns a response. It is handed the dictionary of
  proxies itself, not a copy, and the library may add entries to it (it runs
  \<^verbatim>\<open>proxies.setdefault\<close> for each proxy of the environment), so beside the outcome the
  transport gives the contents of that dictionary when the call ends.
\<close>

record transport_result =
  outcome :: "py_exception + requests_response"
  proxies_after :: "string \<rightharpoonup> string"

type_synonym transport = "requests_call \<Rightarrow> transport_result"

section \<open>\<^verbatim>\<open>http.HTTPStatus\<close>\<close>

text \<open>
  The registry of \<^verbatim>\<open>http.HTTPStatus\<close> (Python 3.9 to 3.11) with the phrase of each member.
  \<^verbatim>\<open>HTTPStatus(value, None)\<close> is the lookup of a member by value, which raises
  \<^verbatim>\<open>ValueError\<close> for a value that is not in the registry.
\<close>

definition HTTPStatus_members :: "(int \<times> string) list" where
  "HTTPStatus_members =
    [(100, ''Continue''), (101, ''Switching Protocols''), (102, ''Processing''),
     (103, ''Early Hints''),
     (200, ''OK''), (201, ''Created''), (202, ''Accepted''),
     (203, ''Non-Authoritative Information''), (204, ''No Content''),
     (205, ''Reset Content''), (206, ''Partial Content''), (207, ''Multi-Status''),
     (208, ''Already Reported''), (226, ''IM Used''),
     (300, ''Multiple Choices''), (301, ''Moved Permanently''), (302, ''Found''),
     (303, ''See Other''), (304, ''Not Modified''), (305, ''Use Proxy''),
     (307, ''Temporary Redirect''), (308, ''Permanent Redirect''),
     (400, ''Bad Request''), (401, ''Unauthorized''), (402, ''Payment Required''),
     (403, ''Forbidden''), (404, ''Not Found''), (405, ''Method Not Allowed''),
     (406, ''Not Acceptable''), (407, ''Proxy Authentication Required''),
     (408, ''Request Timeout''), (409, ''Conflict''), (410, ''Gone''),
     (411, ''Length Required''), (412, ''Precondition Failed''),
     (413, ''Request Entity Too Large''), (414, ''Request-URI Too Long''),
     (415, ''Unsupported Media Type''), (416, ''Requested Range Not Satisfiable''),
     (417, ''Expectation Failed''), (418, ''I'' @ [CHR 0x27] @ ''m a Teapot''),
     (421, ''Misdirected Request''), (422, ''Unprocessable Entity''), (423, ''Locked''),
     (424, ''Failed Dependency''), (425, ''Too Early''), (426, ''Upgrade Required''),
     (428, ''Precondition Required''), (429, ''Too Many Requests''),
     (431, ''Request Header Fields Too Large''), (451, ''Unavailable For Legal Reasons''),
     (500, ''Internal Server Error''), (501, ''Not Implemented''), (502, ''Bad Gateway''),
     (503, ''Service Unavailable''), (504, ''Gateway Timeout''),
     (505, ''HTTP Version Not Supported''), (506, ''Variant Also Negotiates''),
     (507, ''Insufficient Storage''), (508, ''Loop Detected''), (510, ''Not Extended''),
     (511, ''Network Authentication Required'')]"

definition HTTPStatus_phrase :: "int \<Rightarrow> py_exception + string" where
  "HTTPStatus_phrase v =
     (case map_of HTTPStatus_members v of
        None \<Rightarrow> Inl (ValueError (str_int v @ '' is not a valid HTTPStatus''))
      | Some phrase \<Rightarrow> Inr phrase)"

section \<open>The response classes\<close>

text \<open>\<^verbatim>\<open>RequestsWebClientSuccessResponse\<close>: the two slots set by \<^verbatim>\<open>__init__\<close>.\<close>

record success_response =
  sr_requests_response :: requests_response
  sr_max_response_data_length :: "int option"

definition status_code :: "success_response \<Rightarrow> int" where
  "status_code self = resp_status_code (sr_requests_response self)"

definition status_message :: "success_response \<Rightarrow> py_exception + string" where
  "status_message self =
     (case resp_reason (sr_requests_response self) of
        None \<Rightarrow> HTTPStatus_phrase (status_code self)
      | Some message \<Rightarrow>
          if message = [] then HTTPStatus_phrase (status_code self) else Inr message)"

definition header :: "success_response \<Rightarrow> string \<Rightarrow> string option" where
  "header self case_insensitive_name =
     cid_get (resp_headers (sr_requests_response self)) (str_lower case_insensitive_name)"

text \<open>
  \<^verbatim>\<open>raw_data\<close>: the limit is used when it is truthy, that is neither \<^verbatim>\<open>None\<close> nor 0.
\<close>

definition raw_data :: "success_response \<Rightarrow> bytes" where
  "raw_data self =
     (case sr_max_response_data_length self of
        None \<Rightarrow> resp_content (sr_requests_response self)
      | Some n \<Rightarrow>
          if n \<noteq> 0 then slice_to (resp_content (sr_requests_response self)) n
          else resp_content (sr_requests_response self))"

text \<open>
  Modelled from the spec: \<^verbatim>\<open>WebClientErrorResponse\<close> is declared in
  \<^verbatim>\<open>abstract_client.py\<close>, which is not among the sources; the spec gives an Error a
  message string and a retryable flag, the two keyword arguments the client passes.
\<close>

record error_response =
  message :: string
  is_retryable :: bool

datatype web_client_response =
    RequestsWebClientSuccessResponse success_response
  | RequestsWebClientErrorResponse error_response

section \<open>The client\<close>

definition USER_AGENT :: "string list" where
  "USER_AGENT =
    [''Mozilla/5.0 (Windows NT 10.0; Win64; x64) AppleWebKit/537.36 (KHTML, like Gecko) Chrome/94.0.4606.61 Safari/537.36'',
     ''Mozilla/5.0 (iPhone; CPU iPhone OS 15_0 like Mac OS X) AppleWebKit/605.1.15 (KHTML, like Gecko) Version/15.0 Mobile/15E148 Safari/604.1'',
     ''curl/7.68.0'',
     ''Mozilla/5.0 (Windows NT 6.1; WOW64; Trident/7.0; AS; rv:11.0) like Gecko'',
     ''Mozilla/5.0 (Windows NT 10.0; WOW64; rv:89.0) Gecko/20100101 Firefox/89.0'',
     ''Mozilla/5.0 (Macintosh; Intel Mac OS X 10_15_7) AppleWebKit/605.1.15 (KHTML, like Gecko) Version/15.0 Safari/605.1.15'',
     ''Mozilla/5.0 (Linux; Android 11; Pixel 4) AppleWebKit/537.36 (KHTML, like Gecko) Chrome/94.0.4606.61 Mobile Safari/537.36'',
     ''Mozilla/5.0 (Linux; U; Android 4.4.2; en-US; XT907 Build/SU2-SD-K-12.15) AppleWebKit/534.30 (KHTML, like Gecko) Version/4.0 Mobile Safari/534.30'',
     ''Mozilla/5.0 (Windows NT 10.0; Win64; x64) AppleWebKit/537.36 (KHTML, like Gecko) Edge/94.0.992.38 Safari/537.36'',
     ''Mozilla/5.0 (Windows NT 10.0; Win64; x64) AppleWebKit/537.36 (KHTML, like Gecko) Whale/2.11.114.32 Chrome/94.0.4606.71 Safari/537.36'',
     ''Mozilla/5.0 (X11; Linux x86_64) AppleWebKit/537.36 (KHTML, like Gecko) Chrome/94.0.4606.61 Safari/537.36'',
     ''Mozilla/5.0 (Macintosh; Intel Mac OS X 10_15_7) AppleWebKit/537.36 (KHTML, like Gecko) Chrome/94.0.4606.61 Safari/537.36'',
     ''Mozilla/5.0 (Windows NT 10.0; Win64; x64) AppleWebKit/537.36 (KHTML, like Gecko) Chrome/94.0.4606.61 Safari/537.36'',
     ''Mozilla/5.0 (Windows NT 10.0; Win64; x64) AppleWebKit/537.36 (KHTML, like Gecko) Chrome/94.0.4606.61 Safari/537.36'']"

definition HTTP_REQUEST_TIMEOUT :: int where
  "HTTP_REQUEST_TIMEOUT = 60"

text \<open>\<^verbatim>\<open>RequestsWebClient\<close>: the three slots.\<close>

record requests_web_client =
  client_max_response_data_length :: "int option"
  client_timeout :: int
  client_proxies :: "string \<rightharpoonup> string"

definition init :: requests_web_client where
  "init = \<lparr>client_max_response_data_length = None,
           client_timeout = HTTP_REQUEST_TIMEOUT,
           client_proxies = Map.empty\<rparr>"

definition set_timeout :: "requests_web_client \<Rightarrow> int \<Rightarrow> requests_web_client" where
  "set_timeout self t = self\<lparr>client_timeout := t\<rparr>"

definition set_proxies :: "requests_web_client \<Rightarrow> (string \<rightharpoonup> string) \<Rightarrow> requests_web_client" where
  "set_proxies self p = self\<lparr>client_proxies := p\<rparr>"

definition set_max_response_data_length :: "requests_web_client \<Rightarrow> int \<Rightarrow> requests_web_client" where
  "set_max_response_data_length self n = self\<lparr>client_max_response_data_length := Some n\<rparr>"

text \<open>The call that \<^verbatim>\<open>get\<close> makes to the transport, for the random draw \<open>r\<close>.\<close>

definition get_call :: "requests_web_client \<Rightarrow> nat \<Rightarrow> string \<Rightarrow> requests_call" where
  "get_call self r url =
     \<lparr>call_url = url,
      call_timeout = client_timeout self,
      call_stream = True,
      call_headers = [(''User-Agent'', choice r USER_AGENT)],
      call_proxies = client_proxies self\<rparr>"

text \<open>
  \<^verbatim>\<open>'{} {}'.format(response.status_code, response.reason)\<close>.
\<close>

definition format_message :: "int \<Rightarrow> string option \<Rightarrow> string" where
  "format_message code reason = str_int code @ '' '' @ str_optional reason"

text \<open>
  \<^verbatim>\<open>RequestsWebClient.get\<close>. The set \<^verbatim>\<open>RETRYABLE_HTTP_STATUS_CODES\<close> is imported from
  \<^verbatim>\<open>abstract_client.py\<close>, which is not among the sources, so it is the parameter
  \<open>retryable_codes\<close>; the transport \<^verbatim>\<open>requests.get\<close> and the random draw of the user
  agent are parameters as well. The result is the value returned (\<open>Inr\<close>) or the
  exception that leaves \<^verbatim>\<open>get\<close> (\<open>Inl\<close>), together with the client after the call.
  \<^verbatim>\<open>get\<close> assigns to no slot of the client; the slot of the proxies refers to the
  dictionary that was passed to the transport, so after the call it holds what the
  transport left there.
\<close>

definition get ::
  "int set \<Rightarrow> transport \<Rightarrow> nat \<Rightarrow> requests_web_client \<Rightarrow> string
     \<Rightarrow> (py_exception + web_client_response) \<times> requests_web_client" where
  "get retryable_codes requests_get r self url =
     (let result = requests_get (get_call self r url);
          self' = self\<lparr>client_proxies := proxies_after result\<rparr>
      in case outcome result of
        Inl ex \<Rightarrow>
          if isinstance_Timeout ex then
            (Inr (RequestsWebClientErrorResponse
                    \<lparr>message = str_exception ex, is_retryable = True\<rparr>), self')
          else if isinstance_RequestException ex then
            (Inr (RequestsWebClientErrorResponse
                    \<lparr>message = str_exception ex, is_retryable = False\<rparr>), self')
          else (Inl ex, self')
      | Inr response \<Rightarrow>
          if 200 \<le> resp_status_code response \<and> resp_status_code response < 300 then
            (Inr (RequestsWebClientSuccessResponse
                    \<lparr>sr_requests_response = response,
                     sr_max_response_data_length = client_max_response_data_length self\<rparr>),
             self')
          else
            (let message = format_message (resp_status_code response) (resp_reason response)
             in if resp_status_code response \<in> retryable_codes then
                  (Inr (RequestsWebClientErrorResponse
                          \<lparr>message = message, is_retryable = True\<rparr>), self')
                else
                  (Inr (RequestsWebClientErrorResponse
                          \<lparr>message = message, is_retryable = False\<rparr>), self')))"

section \<open>Names that differ only in case\<close>

text \<open>
  Two names are equal ignoring case when they have the same length and, position by
  position, the same letter in either case.
\<close>

definition same_letter :: "char \<Rightarrow> char \<Rightarrow> bool" where
  "same_letter c d \<longleftrightarrow> lower_char c = lower_char d"

definition equal_ignoring_case :: "string \<Rightarrow> string \<Rightarrow> bool" where
  "equal_ignoring_case s t \<longleftrightarrow> list_all2 same_letter s t"

text \<open>
  The values of the header fields whose name equals the requested name ignoring case, in
  the order received.
\<close>

definition matching_values :: "(string \<times> string) list \<Rightarrow> string \<Rightarrow> string list" where
  "matching_values hs name = map snd (filter (\<lambda>(k, v). equal_ignoring_case k name) hs)"

text \<open>
  The entries of a header container are in order when no lower-cased name occurs twice
  and each entry is filed under the lower-cased form of its first name.
\<close>

definition entries_ok :: "http_header_dict \<Rightarrow> bool" where
  "entries_ok c \<longleftrightarrow> distinct (map fst c) \<and> (\<forall>(kl, k0, vals) \<in> set c. kl = str_lower k0)"


section \<open>Auxiliary facts\<close>

subsection \<open>Lower-casing\<close>

lemma of_char_below_256: "(of_char c :: nat) < 256"
  by (rule of_char_mod_256 [where ?'a = nat, THEN subst]) simp

lemma lower_char_idem: "lower_char (lower_char c) = lower_char c"
proof -
  have "(of_char c :: nat) < 256" by (rule of_char_below_256)
  then show ?thesis by (auto simp: lower_char_def Let_def)
qed

lemma str_lower_idem: "str_lower (str_lower s) = str_lower s"
  by (simp add: str_lower_def lower_char_idem)

lemma equal_ignoring_case_iff: "equal_ignoring_case s t \<longleftrightarrow> str_lower s = str_lower t"
  unfolding equal_ignoring_case_def str_lower_def
proof (induction s arbitrary: t)
  case Nil
  then show ?case by auto
next
  case (Cons c s)
  then show ?case by (cases t) (auto simp: same_letter_def)
qed

subsection \<open>Collecting the header fields\<close>

lemma hhd_add_keys: "fst ` set (hhd_add c key val) = insert (str_lower key) (fst ` set c)"
  by (induction c key val rule: hhd_add.induct) auto

lemma hhd_add_ok: "entries_ok c \<Longrightarrow> entries_ok (hhd_add c key val)"
proof (induction c key val rule: hhd_add.induct)
  case (1 key val)
  then show ?case by (simp add: entries_ok_def)
next
  case (2 key_lower vals container key val)
  from "2.prems" have rest: "entries_ok container"
    by (simp add: entries_ok_def)
  show ?case
  proof (cases "key_lower = str_lower key")
    case True
    with "2.prems" show ?thesis by (auto simp: entries_ok_def)
  next
    case False
    with "2.IH" rest have ih: "entries_ok (hhd_add container key val)" by simp
    from "2.prems" have "key_lower \<notin> fst ` set container"
      by (simp add: entries_ok_def)
    with False have "key_lower \<notin> fst ` set (hhd_add container key val)"
      by (simp add: hhd_add_keys)
    with ih "2.prems" False show ?thesis
      by (auto simp: entries_ok_def)
  qed
qed

lemma fold_hhd_add_ok:
  "entries_ok c \<Longrightarrow> entries_ok (fold (\<lambda>(key, val) container. hhd_add container key val) hs c)"
  by (induction hs arbitrary: c) (auto simp: hhd_add_ok)

lemma HTTPHeaderDict_ok: "entries_ok (HTTPHeaderDict hs)"
proof -
  have "entries_ok []" by (simp add: entries_ok_def)
  then show ?thesis unfolding HTTPHeaderDict_def by (rule fold_hhd_add_ok)
qed

lemma map_of_hhd_add:
  "map_of (hhd_add c key val) kl =
     (if kl = str_lower key
      then Some (case map_of c kl of
                   None \<Rightarrow> (key, [val]) | Some (k0, vals) \<Rightarrow> (k0, vals @ [val]))
      else map_of c kl)"
  by (induction c key val rule: hhd_add.induct) (auto split: prod.splits)

lemma map_of_fold_hhd_add:
  "map_of (fold (\<lambda>(key, val) container. hhd_add container key val) hs c) kl =
     (case map_of c kl of
        None \<Rightarrow> (case filter (\<lambda>(k, v). str_lower k = kl) hs of
                   [] \<Rightarrow> None
                 | (k, v) # rest \<Rightarrow> Some (k, v # map snd rest))
      | Some (k0, vals) \<Rightarrow>
          Some (k0, vals @ map snd (filter (\<lambda>(k, v). str_lower k = kl) hs)))"
proof (induction hs arbitrary: c)
  case Nil
  then show ?case by (simp split: option.splits)
next
  case (Cons h hs)
  obtain key val where h: "h = (key, val)" by (cases h)
  show ?case
    by (simp add: h Cons.IH map_of_hhd_add split: option.splits prod.splits list.splits)
qed

subsection \<open>The case-insensitive dictionary\<close>

lemma fold_setitem_distinct:
  "distinct (map (\<lambda>(k, v). str_lower k) hs) \<Longrightarrow>
   fold (\<lambda>(key, v) store. cid_setitem store key v) hs st kl =
     (case map_of (map (\<lambda>(k, v). (str_lower k, (k, v))) hs) kl of
        None \<Rightarrow> st kl | Some x \<Rightarrow> Some x)"
proof (induction hs arbitrary: st)
  case Nil
  then show ?case by simp
next
  case (Cons h hs)
  obtain k v where h: "h = (k, v)" by (cases h)
  from Cons.prems have d: "distinct (map (\<lambda>(k, v). str_lower k) hs)"
    and n: "str_lower k \<notin> set (map (\<lambda>(k, v). str_lower k) hs)"
    by (simp_all add: h)
  have m: "map_of (map (\<lambda>(k, v). (str_lower k, (k, v))) hs) (str_lower k) = None"
    using n by (force simp: map_of_eq_None_iff image_iff)
  have "fold (\<lambda>(key, v) store. cid_setitem store key v) (h # hs) st kl
          = fold (\<lambda>(key, v) store. cid_setitem store key v) hs (cid_setitem st k v) kl"
    by (simp add: h)
  also have "\<dots> = (case map_of (map (\<lambda>(k, v). (str_lower k, (k, v))) hs) kl of
                      None \<Rightarrow> cid_setitem st k v kl | Some x \<Rightarrow> Some x)"
    by (rule Cons.IH [OF d])
  also have "\<dots> = (case map_of (map (\<lambda>(k, v). (str_lower k, (k, v))) (h # hs)) kl of
                      None \<Rightarrow> st kl | Some x \<Rightarrow> Some x)"
  proof (cases "kl = str_lower k")
    case True
    with m show ?thesis by (simp add: h cid_setitem_def)
  next
    case False
    then show ?thesis by (simp add: h cid_setitem_def split: option.splits)
  qed
  finally show ?case .
qed

lemma itermerged_lookup:
  assumes "entries_ok c"
  shows "CaseInsensitiveDict (itermerged c) kl =
           map_option (\<lambda>(k0, vals). (k0, str_join '', '' vals)) (map_of c kl)"
proof -
  from assms have low: "\<forall>(kl, k0, vals) \<in> set c. kl = str_lower k0"
    and dist: "distinct (map fst c)"
    by (simp_all add: entries_ok_def)
  have keys: "map (\<lambda>(k, v). str_lower k) (itermerged c) = map fst c"
    using low by (induction c) (auto simp: itermerged_def)
  have items: "map (\<lambda>(k, v). (str_lower k, (k, v))) (itermerged c)
                = map (\<lambda>(kl, e). (kl, (\<lambda>(k0, vals). (k0, str_join '', '' vals)) e)) c"
    using low by (induction c) (auto simp: itermerged_def)
  have "CaseInsensitiveDict (itermerged c) kl =
          (case map_of (map (\<lambda>(k, v). (str_lower k, (k, v))) (itermerged c)) kl of
             None \<Rightarrow> None | Some x \<Rightarrow> Some x)"
    unfolding CaseInsensitiveDict_def
    using dist by (subst fold_setitem_distinct) (simp_all add: keys)
  also have "\<dots> = map_option (\<lambda>(k0, vals). (k0, str_join '', '' vals)) (map_of c kl)"
    by (simp add: items map_of_map split: option.splits)
  finally show ?thesis .
qed

lemma header_values:
  "header self name =
     (case matching_values (resp_header_fields (sr_requests_response self)) name of
        [] \<Rightarrow> None
      | vs \<Rightarrow> Some (str_join '', '' vs))"
proof -
  let ?hs = "resp_header_fields (sr_requests_response self)"
  have f: "(\<lambda>(k, v). equal_ignoring_case k name)
            = (\<lambda>(k, v :: string). str_lower k = str_lower name)"
    by (simp add: equal_ignoring_case_iff)
  have "header self name =
          map_option (\<lambda>(k0, vals). str_join '', '' vals)
            (map_of (HTTPHeaderDict ?hs) (str_lower name))"
    by (simp add: header_def cid_get_def resp_headers_def str_lower_idem
          itermerged_lookup [OF HTTPHeaderDict_ok] split: option.splits)
  also have "\<dots> = (case matching_values ?hs name of
                      [] \<Rightarrow> None | vs \<Rightarrow> Some (str_join '', '' vs))"
    by (simp add: HTTPHeaderDict_def map_of_fold_hhd_add matching_values_def f
          split: list.splits prod.splits)
  finally show ?thesis .
qed

lemma matching_values_cong:
  "equal_ignoring_case name1 name2 \<Longrightarrow> matching_values hs name1 = matching_values hs name2"
  by (simp add: matching_values_def equal_ignoring_case_iff)

lemma matching_values_empty:
  "matching_values hs name = [] \<longleftrightarrow> (\<forall>(k, v) \<in> set hs. \<not> equal_ignoring_case k name)"
  by (auto simp: matching_values_def filter_empty_conv)

lemma matching_values_single:
  assumes "equal_ignoring_case k name"
    and "\<forall>(k', v') \<in> set (xs @ ys). \<not> equal_ignoring_case k' name"
  shows "matching_values (xs @ (k, v) # ys) name = [v]"
proof -
  from assms(2) have "matching_values xs name = []" and "matching_values ys name = []"
    by (auto simp: matching_values_empty)
  with assms(1) show ?thesis by (simp add: matching_values_def)
qed

subsection \<open>The status registry and decimal numerals\<close>

lemma HTTPStatus_phrases_proper:
  "\<forall>(c, p) \<in> set HTTPStatus_members. p \<noteq> [] \<and> p \<noteq> ''None''"
  by (simp add: HTTPStatus_members_def)

lemma HTTPStatus_phrase_proper:
  assumes "HTTPStatus_phrase v = Inr p"
  shows "p \<noteq> [] \<and> p \<noteq> ''None''"
proof -
  from assms have "map_of HTTPStatus_members v = Some p"
    by (simp add: HTTPStatus_phrase_def split: option.splits)
  then have "(v, p) \<in> set HTTPStatus_members" by (rule map_of_SomeD)
  with HTTPStatus_phrases_proper show ?thesis by blast
qed

lemma map_of_HTTPStatus_404: "map_of HTTPStatus_members 404 = Some ''Not Found''"
  by (simp add: HTTPStatus_members_def)

lemma map_of_HTTPStatus_299: "map_of HTTPStatus_members 299 = None"
  by (simp add: HTTPStatus_members_def)

lemma HTTPStatus_phrase_404: "HTTPStatus_phrase 404 = Inr ''Not Found''"
  by (simp add: HTTPStatus_phrase_def map_of_HTTPStatus_404)

lemma str_int_299: "str_int 299 = ''299''"
  by code_simp

lemma str_int_404: "str_int 404 = ''404''"
  by code_simp

lemma str_int_429: "str_int 429 = ''429''"
  by code_simp

section \<open>Fetching: \<^verbatim>\<open>RequestsWebClient.get\<close>\<close>






text \<open>
  C3. A received response whose status is outside [200, 300) gives an Error whose message
  is the status code, a space and the reason, and whose retryable flag is set exactly
  when the status code is in the set of retryable status codes.
\<close>

theorem get_status_error:
  "outcome (requests_get (get_call self r url)) = Inr response \<Longrightarrow>
   \<not> (200 \<le> resp_status_code response \<and> resp_status_code response < 300) \<Longrightarrow>
   fst (get retryable_codes requests_get r self url)
     = Inr (RequestsWebClientErrorResponse
              \<lparr>message = str_int (resp_status_code response) @ '' ''
                           @ str_optional (resp_reason response),
               is_retryable = (resp_status_code response \<in> retryable_codes)\<rparr>)"
  by (simp add: get_def Let_def format_message_def)

theorem get_status_error_witness:
  "fst (get {408, 429}
            (\<lambda>c. \<lparr>outcome = Inr \<lparr>resp_status_code = 429, resp_reason = Some ''Too Many Requests'',
                 resp_header_fields = [], resp_content = []\<rparr>,
                 proxies_after = call_proxies c\<rparr>)
            0 init ''http://example.com/sitemap.xml'')
       = Inr (RequestsWebClientErrorResponse
                \<lparr>message = ''429 Too Many Requests'', is_retryable = True\<rparr>)
   \<and> fst (get {408, 429}
            (\<lambda>c. \<lparr>outcome = Inr \<lparr>resp_status_code = 404, resp_reason = Some ''Not Found'',
                 resp_header_fields = [], resp_content = []\<rparr>,
                 proxies_after = call_proxies c\<rparr>)
            0 init ''http://example.com/sitemap.xml'')
       = Inr (RequestsWebClientErrorResponse
                \<lparr>message = ''404 Not Found'', is_retryable = False\<rparr>)"
  using get_status_error
      [where requests_get = "(\<lambda>c. \<lparr>outcome = Inr \<lparr>resp_status_code = 429, resp_reason = Some ''Too Many Requests'',
                 resp_header_fields = [], resp_content = []\<rparr>,
                 proxies_after = call_proxies c\<rparr>)"
         and self = init and r = 0 and url = "''http://example.com/sitemap.xml''"
         and response = "\<lparr>resp_status_code = 429, resp_reason = Some ''Too Many Requests'',
                 resp_header_fields = [], resp_content = []\<rparr>"
         and retryable_codes = "{408, 429}"]
    get_status_error
      [where requests_get = "(\<lambda>c. \<lparr>outcome = Inr \<lparr>resp_status_code = 404, resp_reason = Some ''Not Found'',
                 resp_header_fields = [], resp_content = []\<rparr>,
                 proxies_after = call_proxies c\<rparr>)"
         and self = init and r = 0 and url = "''http://example.com/sitemap.xml''"
         and response = "\<lparr>resp_status_code = 404, resp_reason = Some ''Not Found'',
                 resp_header_fields = [], resp_content = []\<rparr>"
         and retryable_codes = "{408, 429}"]
  by (simp add: str_int_429 str_int_404)

text \<open>
  C4. A received response whose status is in [200, 300) gives a Success response that
  wraps the response received, and its \<^verbatim>\<open>status_code()\<close> is exactly the status code the
  transport delivered.
\<close>

theorem get_success_status_code:
  "outcome (requests_get (get_call self r url)) = Inr response \<Longrightarrow>
   200 \<le> resp_status_code response \<Longrightarrow> resp_status_code response < 300 \<Longrightarrow>
   \<exists>sr. fst (get retryable_codes requests_get r self url)
          = Inr (RequestsWebClientSuccessResponse sr)
        \<and> sr_requests_response sr = response
        \<and> status_code sr = resp_status_code response"
  by (simp add: get_def Let_def status_code_def)

theorem get_success_status_code_witness:
  "(200::int) \<le> 206 \<and> (206::int) < 300
   \<and> (\<exists>sr. fst (get {408, 429}
                 (\<lambda>c. \<lparr>outcome = Inr \<lparr>resp_status_code = 206, resp_reason = Some ''Partial Content'',
                 resp_header_fields = [], resp_content = [1, 2, 3]\<rparr>,
                 proxies_after = call_proxies c\<rparr>)
                 0 init ''http://example.com/sitemap.xml'')
              = Inr (RequestsWebClientSuccessResponse sr)
            \<and> status_code sr = 206)"
  using get_success_status_code
      [where requests_get = "(\<lambda>c. \<lparr>outcome = Inr \<lparr>resp_status_code = 206, resp_reason = Some ''Partial Content'',
                 resp_header_fields = [], resp_content = [1, 2, 3]\<rparr>,
                 proxies_after = call_proxies c\<rparr>)"
         and self = init and r = 0 and url = "''http://example.com/sitemap.xml''"
         and response = "\<lparr>resp_status_code = 206, resp_reason = Some ''Partial Content'',
                 resp_header_fields = [], resp_content = [1, 2, 3]\<rparr>"
         and retryable_codes = "{408, 429}"]
  by simp blast

text \<open>
  C8, as the code has it. \<^verbatim>\<open>get\<close> assigns to no field of the client: the timeout and
  the limit on the response data are the same after the call as before. The proxies
  field still refers to the dictionary that was handed to the transport, so after the
  call it maps what the transport left in it; when the transport leaves that dictionary
  as it was, the client after the call equals the client before.
\<close>

theorem get_frame_slots:
  "client_timeout (snd (get retryable_codes requests_get r self url)) = client_timeout self
   \<and> client_max_response_data_length (snd (get retryable_codes requests_get r self url))
       = client_max_response_data_length self
   \<and> client_proxies (snd (get retryable_codes requests_get r self url))
       = proxies_after (requests_get (get_call self r url))
   \<and> (proxies_after (requests_get (get_call self r url)) = client_proxies self
        \<longrightarrow> snd (get retryable_codes requests_get r self url) = self)"
proof -
  have "snd (get retryable_codes requests_get r self url)
          = self\<lparr>client_proxies := proxies_after (requests_get (get_call self r url))\<rparr>"
    by (simp add: get_def Let_def split: sum.splits)
  then show ?thesis by simp
qed

theorem get_frame_slots_witness:
  "snd (get {408, 429}
          (\<lambda>c. \<lparr>outcome = Inl (RequestsError ReadTimeout ''Read timed out. (read timeout=5)''),
                 proxies_after = call_proxies c\<rparr>)
          0 (set_timeout init 5) ''http://example.com/sitemap.xml'') = set_timeout init 5
   \<and> client_timeout (snd (get {408, 429}
          (\<lambda>c. \<lparr>outcome = Inl (RequestsError ReadTimeout ''Read timed out. (read timeout=5)''),
                 proxies_after = call_proxies c\<rparr>)
          0 (set_timeout init 5) ''http://example.com/sitemap.xml'')) = 5"
  using get_frame_slots
      [where requests_get = "(\<lambda>c. \<lparr>outcome = Inl (RequestsError ReadTimeout ''Read timed out. (read timeout=5)''),
                 proxies_after = call_proxies c\<rparr>)"
         and self = "set_timeout init 5" and r = 0 and url = "''http://example.com/sitemap.xml''"
         and retryable_codes = "{408, 429}"]
  by (simp add: set_timeout_def get_call_def)

text \<open>
  C8 as stated fails for the proxies mapping. The client is configured with a proxy for
  \<^verbatim>\<open>http\<close> only; the transport, finding a proxy for \<^verbatim>\<open>https\<close> in its environment, adds
  it with \<^verbatim>\<open>setdefault\<close> to the dictionary it was given, which is the client's own. Before
  the call the client's proxies have no entry for \<^verbatim>\<open>https\<close>, after the call they have
  one.
\<close>

theorem get_frame_counterexample:
  "client_proxies (set_proxies init [''http'' \<mapsto> ''http://10.10.1.10:3128/'']) ''https'' = None
   \<and> client_proxies
        (snd (get {408, 429}
                (\<lambda>c. \<lparr>outcome = Inr \<lparr>resp_status_code = 200, resp_reason = Some ''OK'',
                 resp_header_fields = [], resp_content = []\<rparr>,
                       proxies_after =
                         setdefault (call_proxies c) ''https'' ''http://127.0.0.1:8080''\<rparr>)
                0 (set_proxies init [''http'' \<mapsto> ''http://10.10.1.10:3128/''])
                ''http://example.com/sitemap.xml'')) ''https''
      = Some ''http://127.0.0.1:8080''"
  by (simp add: get_def Let_def get_call_def set_proxies_def init_def setdefault_def)

text \<open>
  C10. When a response with a status outside [200, 300) arrives without a reason phrase,
  the Error message is made from the reason as it is: the code followed by
  \<^verbatim>\<open> None\<close> for an absent reason, the code followed by a space for an empty one. It is
  never the code followed by the standard phrase of the registry; that phrase is looked
  up by \<^verbatim>\<open>status_message()\<close> of a Success response only.
\<close>

theorem get_error_message_no_fallback:
  assumes "outcome (requests_get (get_call self r url)) = Inr response"
    and "\<not> (200 \<le> resp_status_code response \<and> resp_status_code response < 300)"
    and "resp_reason response = None \<or> resp_reason response = Some []"
  shows "\<exists>e. fst (get retryable_codes requests_get r self url)
               = Inr (RequestsWebClientErrorResponse e)
             \<and> (resp_reason response = None
                  \<longrightarrow> message e = str_int (resp_status_code response) @ '' None'')
             \<and> (resp_reason response = Some []
                  \<longrightarrow> message e = str_int (resp_status_code response) @ '' '')
             \<and> (\<forall>p. HTTPStatus_phrase (resp_status_code response) = Inr p
                  \<longrightarrow> message e \<noteq> str_int (resp_status_code response) @ '' '' @ p)"
proof -
  let ?m = "format_message (resp_status_code response) (resp_reason response)"
  let ?e = "\<lparr>message = ?m, is_retryable = (resp_status_code response \<in> retryable_codes)\<rparr>"
  have g: "fst (get retryable_codes requests_get r self url)
            = Inr (RequestsWebClientErrorResponse ?e)"
    using assms(1,2) by (simp add: get_def Let_def)
  have n: "resp_reason response = None
            \<longrightarrow> ?m = str_int (resp_status_code response) @ '' None''"
    by (simp add: format_message_def)
  have s: "resp_reason response = Some []
            \<longrightarrow> ?m = str_int (resp_status_code response) @ '' ''"
    by (simp add: format_message_def)
  have d: "\<forall>p. HTTPStatus_phrase (resp_status_code response) = Inr p
            \<longrightarrow> ?m \<noteq> str_int (resp_status_code response) @ '' '' @ p"
  proof (intro allI impI)
    fix p
    assume "HTTPStatus_phrase (resp_status_code response) = Inr p"
    then have "p \<noteq> [] \<and> p \<noteq> ''None''" by (rule HTTPStatus_phrase_proper)
    with assms(3) show "?m \<noteq> str_int (resp_status_code response) @ '' '' @ p"
      by (auto simp: format_message_def)
  qed
  from g n s d show ?thesis by simp
qed

theorem get_error_message_no_fallback_witness:
  "HTTPStatus_phrase 404 = Inr ''Not Found''
   \<and> fst (get {408, 429}
          (\<lambda>c. \<lparr>outcome = Inr \<lparr>resp_status_code = 404, resp_reason = None,
                 resp_header_fields = [], resp_content = []\<rparr>,
                 proxies_after = call_proxies c\<rparr>)
          0 init ''http://example.com/sitemap.xml'')
     = Inr (RequestsWebClientErrorResponse \<lparr>message = ''404 None'', is_retryable = False\<rparr>)"
proof -
  let ?resp = "\<lparr>resp_status_code = 404, resp_reason = None,
                 resp_header_fields = [], resp_content = []\<rparr>"
  let ?t = "(\<lambda>c. \<lparr>outcome = Inr \<lparr>resp_status_code = 404, resp_reason = None,
                 resp_header_fields = [], resp_content = []\<rparr>,
                 proxies_after = call_proxies c\<rparr>)"
  from get_error_message_no_fallback
      [where requests_get = ?t and self = init and r = 0
         and url = "''http://example.com/sitemap.xml''" and response = ?resp
         and retryable_codes = "{408, 429}"]
  obtain e where
    e: "fst (get {408, 429} ?t 0 init ''http://example.com/sitemap.xml'')
          = Inr (RequestsWebClientErrorResponse e)"
    and m: "message e = str_int 404 @ '' None''"
    by auto
  have r: "is_retryable e = False"
    using e by (auto simp: get_def Let_def)
  have "e = \<lparr>message = ''404 None'', is_retryable = False\<rparr>"
    using m r by (simp add: str_int_404)
  with e HTTPStatus_phrase_404 show ?thesis by simp
qed

section \<open>The accessors of a Success response\<close>

text \<open>
  C5. The truncation law of \<^verbatim>\<open>raw_data()\<close>: with the limit set to some N above 0, a
  body longer than N is cut to its first N bytes, so the result has length exactly N,
  and a body of length at most N is returned whole; with the limit unset or 0 the body is
  returned whole.
\<close>

theorem raw_data_truncation:
  "(sr_max_response_data_length self = Some N \<and> 0 < N \<longrightarrow>
      (nat N < length (resp_content (sr_requests_response self))
         \<longrightarrow> length (raw_data self) = nat N
             \<and> raw_data self = take (nat N) (resp_content (sr_requests_response self)))
      \<and> (length (resp_content (sr_requests_response self)) \<le> nat N
         \<longrightarrow> raw_data self = resp_content (sr_requests_response self)))
   \<and> (sr_max_response_data_length self = None \<or> sr_max_response_data_length self = Some 0
        \<longrightarrow> raw_data self = resp_content (sr_requests_response self))"
  by (auto simp: raw_data_def slice_to_def)

theorem raw_data_truncation_witness:
  "raw_data \<lparr>sr_requests_response =
               \<lparr>resp_status_code = 200, resp_reason = Some ''OK'',
                 resp_header_fields = [], resp_content = [97, 98, 99]\<rparr>,
             sr_max_response_data_length = Some 2\<rparr> = [97, 98]
   \<and> raw_data \<lparr>sr_requests_response =
               \<lparr>resp_status_code = 200, resp_reason = Some ''OK'',
                 resp_header_fields = [], resp_content = [97, 98, 99]\<rparr>,
             sr_max_response_data_length = Some 3\<rparr> = [97, 98, 99]
   \<and> raw_data \<lparr>sr_requests_response =
               \<lparr>resp_status_code = 200, resp_reason = Some ''OK'',
                 resp_header_fields = [], resp_content = [97, 98, 99]\<rparr>,
             sr_max_response_data_length = Some 0\<rparr> = [97, 98, 99]
   \<and> raw_data \<lparr>sr_requests_response =
               \<lparr>resp_status_code = 200, resp_reason = Some ''OK'',
                 resp_header_fields = [], resp_content = [97, 98, 99]\<rparr>,
             sr_max_response_data_length = None\<rparr> = [97, 98, 99]"
proof -
  have a: "raw_data \<lparr>sr_requests_response =
               \<lparr>resp_status_code = 200, resp_reason = Some ''OK'',
                 resp_header_fields = [], resp_content = [97, 98, 99]\<rparr>,
             sr_max_response_data_length = Some 2\<rparr> = [97, 98]"
    using raw_data_truncation
      [where self = "\<lparr>sr_requests_response =
               \<lparr>resp_status_code = 200, resp_reason = Some ''OK'',
                 resp_header_fields = [], resp_content = [97, 98, 99]\<rparr>,
             sr_max_response_data_length = Some 2\<rparr>" and N = 2]
    by simp
  have b: "raw_data \<lparr>sr_requests_response =
               \<lparr>resp_status_code = 200, resp_reason = Some ''OK'',
                 resp_header_fields = [], resp_content = [97, 98, 99]\<rparr>,
             sr_max_response_data_length = Some 3\<rparr> = [97, 98, 99]"
    using raw_data_truncation
      [where self = "\<lparr>sr_requests_response =
               \<lparr>resp_status_code = 200, resp_reason = Some ''OK'',
                 resp_header_fields = [], resp_content = [97, 98, 99]\<rparr>,
             sr_max_response_data_length = Some 3\<rparr>" and N = 3]
    by simp
  have c: "raw_data \<lparr>sr_requests_response =
               \<lparr>resp_status_code = 200, resp_reason = Some ''OK'',
                 resp_header_fields = [], resp_content = [97, 98, 99]\<rparr>,
             sr_max_response_data_length = Some 0\<rparr> = [97, 98, 99]"
    using raw_data_truncation
      [where self = "\<lparr>sr_requests_response =
               \<lparr>resp_status_code = 200, resp_reason = Some ''OK'',
                 resp_header_fields = [], resp_content = [97, 98, 99]\<rparr>,
             sr_max_response_data_length = Some 0\<rparr>"]
    by simp
  have d: "raw_data \<lparr>sr_requests_response =
               \<lparr>resp_status_code = 200, resp_reason = Some ''OK'',
                 resp_header_fields = [], resp_content = [97, 98, 99]\<rparr>,
             sr_max_response_data_length = None\<rparr> = [97, 98, 99]"
    using raw_data_truncation
      [where self = "\<lparr>sr_requests_response =
               \<lparr>resp_status_code = 200, resp_reason = Some ''OK'',
                 resp_header_fields = [], resp_content = [97, 98, 99]\<rparr>,
             sr_max_response_data_length = None\<rparr>"]
    by simp
  from a b c d show ?thesis by simp
qed

text \<open>
  C6, as the code has it. \<^verbatim>\<open>status_message()\<close> returns the reason phrase of the
  transport when that phrase is not empty; when the phrase is absent or empty and the
  status code is a member of the standard registry, it returns the standard phrase of
  that code. So it returns a phrase whenever the reason is not empty or the code is in
  the registry.
\<close>

theorem status_message_on_registry:
  "(resp_reason (sr_requests_response self) = Some m \<and> m \<noteq> []
      \<longrightarrow> status_message self = Inr m)
   \<and> ((resp_reason (sr_requests_response self) = None
          \<or> resp_reason (sr_requests_response self) = Some [])
        \<and> map_of HTTPStatus_members (status_code self) = Some phrase
      \<longrightarrow> status_message self = Inr phrase)"
  by (auto simp: status_message_def HTTPStatus_phrase_def)

theorem status_message_on_registry_witness:
  "status_message \<lparr>sr_requests_response =
               \<lparr>resp_status_code = 200, resp_reason = Some ''Okay'',
                 resp_header_fields = [], resp_content = []\<rparr>,
             sr_max_response_data_length = None\<rparr> = Inr ''Okay''
   \<and> map_of HTTPStatus_members 404 = Some ''Not Found''
   \<and> status_message \<lparr>sr_requests_response =
               \<lparr>resp_status_code = 404, resp_reason = None,
                 resp_header_fields = [], resp_content = []\<rparr>,
             sr_max_response_data_length = None\<rparr> = Inr ''Not Found''
   \<and> status_message \<lparr>sr_requests_response =
               \<lparr>resp_status_code = 404, resp_reason = Some [],
                 resp_header_fields = [], resp_content = []\<rparr>,
             sr_max_response_data_length = None\<rparr> = Inr ''Not Found''"
  using status_message_on_registry
      [where self = "\<lparr>sr_requests_response =
               \<lparr>resp_status_code = 200, resp_reason = Some ''Okay'',
                 resp_header_fields = [], resp_content = []\<rparr>,
             sr_max_response_data_length = None\<rparr>" and m = "''Okay''"]
    status_message_on_registry
      [where self = "\<lparr>sr_requests_response =
               \<lparr>resp_status_code = 404, resp_reason = None,
                 resp_header_fields = [], resp_content = []\<rparr>,
             sr_max_response_data_length = None\<rparr>"
         and phrase = "''Not Found''"]
    status_message_on_registry
      [where self = "\<lparr>sr_requests_response =
               \<lparr>resp_status_code = 404, resp_reason = Some [],
                 resp_header_fields = [], resp_content = []\<rparr>,
             sr_max_response_data_length = None\<rparr>"
         and phrase = "''Not Found''"]
    map_of_HTTPStatus_404
  by (simp add: status_code_def)

text \<open>
  C6 as stated fails: there is no generic phrase to fall back to. The status 299 is in
  [200, 300) and in no registry; a response with that status and an empty reason is
  wrapped by \<^verbatim>\<open>get\<close> into a Success response, and \<^verbatim>\<open>status_message()\<close> of it raises
  \<^verbatim>\<open>ValueError\<close>.
\<close>

theorem status_message_raises_counterexample:
  "fst (get {408, 429}
          (\<lambda>c. \<lparr>outcome = Inr \<lparr>resp_status_code = 299, resp_reason = Some [],
                 resp_header_fields = [], resp_content = []\<rparr>,
                 proxies_after = call_proxies c\<rparr>)
          0 init ''http://example.com/sitemap.xml'')
     = Inr (RequestsWebClientSuccessResponse
             \<lparr>sr_requests_response =
               \<lparr>resp_status_code = 299, resp_reason = Some [],
                 resp_header_fields = [], resp_content = []\<rparr>,
             sr_max_response_data_length = None\<rparr>)
   \<and> status_message
        \<lparr>sr_requests_response =
               \<lparr>resp_status_code = 299, resp_reason = Some [],
                 resp_header_fields = [], resp_content = []\<rparr>,
             sr_max_response_data_length = None\<rparr>
     = Inl (ValueError ''299 is not a valid HTTPStatus'')"
  by (simp add: get_def Let_def init_def status_message_def status_code_def
        HTTPStatus_phrase_def map_of_HTTPStatus_299 str_int_299)

text \<open>
  C7. Header lookup ignores case: two names that are equal ignoring case get the same
  answer from \<^verbatim>\<open>header\<close>; the answer is none exactly when no header field of the response
  has a name equal to the requested one ignoring case; when fields match, however they
  and the requested name are cased, the answer is their values in the order received,
  joined by a comma and a space; so when a single field matches, the answer is its value.
\<close>

theorem header_case_insensitive:
  "(equal_ignoring_case name1 name2 \<longrightarrow> header self name1 = header self name2)
   \<and> (header self name = None \<longleftrightarrow>
        (\<forall>(k, v) \<in> set (resp_header_fields (sr_requests_response self)).
            \<not> equal_ignoring_case k name))
   \<and> (matching_values (resp_header_fields (sr_requests_response self)) name \<noteq> []
        \<longrightarrow> header self name
             = Some (str_join '', ''
                      (matching_values (resp_header_fields (sr_requests_response self)) name)))
   \<and> (resp_header_fields (sr_requests_response self) = xs @ (k, v) # ys
        \<and> equal_ignoring_case k name
        \<and> (\<forall>(k', v') \<in> set (xs @ ys). \<not> equal_ignoring_case k' name)
        \<longrightarrow> header self name = Some v)"
proof (intro conjI impI)
  assume "equal_ignoring_case name1 name2"
  then show "header self name1 = header self name2"
    by (simp add: header_values matching_values_cong)
next
  let ?hs = "resp_header_fields (sr_requests_response self)"
  have "header self name = None \<longleftrightarrow> matching_values ?hs name = []"
    by (simp add: header_values split: list.splits)
  then show "header self name = None \<longleftrightarrow>
        (\<forall>(k, v) \<in> set ?hs. \<not> equal_ignoring_case k name)"
    by (simp add: matching_values_empty)
next
  assume "matching_values (resp_header_fields (sr_requests_response self)) name \<noteq> []"
  then show "header self name
             = Some (str_join '', ''
                      (matching_values (resp_header_fields (sr_requests_response self)) name))"
    by (simp add: header_values split: list.splits)
next
  assume a: "resp_header_fields (sr_requests_response self) = xs @ (k, v) # ys
        \<and> equal_ignoring_case k name
        \<and> (\<forall>(k', v') \<in> set (xs @ ys). \<not> equal_ignoring_case k' name)"
  then have "matching_values (resp_header_fields (sr_requests_response self)) name = [v]"
    using matching_values_single [of k name xs ys v] by simp
  then show "header self name = Some v"
    by (simp add: header_values)
qed

theorem header_case_insensitive_witness:
  "equal_ignoring_case ''Content-Type'' ''content-type''
   \<and> header \<lparr>sr_requests_response =
               \<lparr>resp_status_code = 200, resp_reason = Some ''OK'',
                 resp_header_fields = [(''Via'', ''1.1 a''), (''CONTENT-TYPE'', ''text/xml''), (''Server'', ''nginx''), (''via'', ''1.1 b'')], resp_content = []\<rparr>,
             sr_max_response_data_length = None\<rparr> ''Content-Type'' = Some ''text/xml''
   \<and> header \<lparr>sr_requests_response =
               \<lparr>resp_status_code = 200, resp_reason = Some ''OK'',
                 resp_header_fields = [(''Via'', ''1.1 a''), (''CONTENT-TYPE'', ''text/xml''), (''Server'', ''nginx''), (''via'', ''1.1 b'')], resp_content = []\<rparr>,
             sr_max_response_data_length = None\<rparr> ''content-type'' = Some ''text/xml''
   \<and> header \<lparr>sr_requests_response =
               \<lparr>resp_status_code = 200, resp_reason = Some ''OK'',
                 resp_header_fields = [(''Via'', ''1.1 a''), (''CONTENT-TYPE'', ''text/xml''), (''Server'', ''nginx''), (''via'', ''1.1 b'')], resp_content = []\<rparr>,
             sr_max_response_data_length = None\<rparr> ''Accept'' = None
   \<and> header \<lparr>sr_requests_response =
               \<lparr>resp_status_code = 200, resp_reason = Some ''OK'',
                 resp_header_fields = [(''Via'', ''1.1 a''), (''CONTENT-TYPE'', ''text/xml''), (''Server'', ''nginx''), (''via'', ''1.1 b'')], resp_content = []\<rparr>,
             sr_max_response_data_length = None\<rparr> ''VIA'' = Some ''1.1 a, 1.1 b''"
proof -
  let ?sr = "\<lparr>sr_requests_response =
               \<lparr>resp_status_code = 200, resp_reason = Some ''OK'',
                 resp_header_fields = [(''Via'', ''1.1 a''), (''CONTENT-TYPE'', ''text/xml''), (''Server'', ''nginx''), (''via'', ''1.1 b'')], resp_content = []\<rparr>,
             sr_max_response_data_length = None\<rparr>"
  have e: "equal_ignoring_case ''Content-Type'' ''content-type''"
    by code_simp
  have m1: "matching_values (resp_header_fields (sr_requests_response ?sr)) ''Content-Type''
              = [''text/xml'']"
    by code_simp
  have m2: "\<not> equal_ignoring_case ''Via'' ''Accept''
            \<and> \<not> equal_ignoring_case ''CONTENT-TYPE'' ''Accept''
            \<and> \<not> equal_ignoring_case ''Server'' ''Accept''
            \<and> \<not> equal_ignoring_case ''via'' ''Accept''"
    by code_simp
  have m3: "matching_values (resp_header_fields (sr_requests_response ?sr)) ''VIA''
              = [''1.1 a'', ''1.1 b'']"
    by code_simp
  have h: "header ?sr ''Content-Type'' = Some ''text/xml''"
    using header_case_insensitive [where self = ?sr and name = "''Content-Type''"] m1
    by simp
  have n: "header ?sr ''Accept'' = None"
    using header_case_insensitive [where self = ?sr and name = "''Accept''"] m2
    by simp
  have j: "header ?sr ''VIA'' = Some ''1.1 a, 1.1 b''"
    using header_case_insensitive [where self = ?sr and name = "''VIA''"] m3
    by simp
  from header_case_insensitive
      [where self = ?sr and ?name1.0 = "''Content-Type''" and ?name2.0 = "''content-type''"]
    e h n j
  show ?thesis by simp
qed

end
